theory Spec2Isabelle
  imports Main "HOL-Library.AList"
begin

section \<open>ToastSpeech authentication backend (main.py)\<close>

text \<open>
  The program is a FastAPI application with three account operations
  (\<^verbatim>\<open>signup\<close>, \<^verbatim>\<open>signin\<close>, \<^verbatim>\<open>me\<close>) and two helpers
  (\<^verbatim>\<open>create_token\<close>, \<^verbatim>\<open>get_current_user\<close>). Everything it does beyond
  returning a value is explicit here: the wall clock is an argument, the hosted
  provider (tables, identity service, the list of remote calls made) is a state that
  every remote call takes and returns, and every \<^verbatim>\<open>raise\<close> is an \<open>Inl\<close>.
\<close>

subsection \<open>Exceptions\<close>

text \<open>
  \<open>HTTPException\<close> is the only exception the handlers raise on purpose; FastAPI turns
  it into a response with that status and detail. Every other exception that leaves a
  handler is unhandled (the framework answers 500). \<open>Exception s\<close> is the plain
  \<^verbatim>\<open>Exception("Invalid token")\<close> of \<^verbatim>\<open>get_current_user\<close>; \<open>JWTError\<close>,
  \<open>ExpiredSignatureError\<close> and \<open>JWTClaimsError\<close> are raised by the token library,
  \<open>APIError\<close> by the provider client, \<open>TypeError\<close>, \<open>ValueError\<close> and
  \<open>OverflowError\<close> by Python itself.
\<close>

datatype error =
    HTTPException int string
  | Exception string
  | JWTError
  | ExpiredSignatureError
  | JWTClaimsError
  | APIError
  | TypeError
  | ValueError
  | OverflowError

subsection \<open>The clock\<close>

text \<open>
  An instant is a number of microseconds since the epoch (the resolution of a Python
  \<^verbatim>\<open>datetime\<close>). A request reads the clock at one instant: \<open>utcnow\<close> is \<^verbatim>\<open>datetime.utcnow()\<close>,
  \<open>now_month\<close> and \<open>now_year\<close> are the two fields \<^verbatim>\<open>signup\<close> reads of the local
  time \<^verbatim>\<open>datetime.now()\<close>.
\<close>

type_synonym instant = int

record clock =
  utcnow :: instant
  now_month :: int
  now_year :: int

text \<open>
  A \<^verbatim>\<open>datetime\<close> holds the instants from 0001-01-01 00:00:00 (\<open>datetime_min\<close>) to
  9999-12-31 23:59:59.999999 (\<open>datetime_max\<close>); adding a duration raises
  \<open>OverflowError\<close> when the sum is outside.
\<close>

definition datetime_min :: instant where
  "datetime_min = - 62135596800000000"

definition datetime_max :: instant where
  "datetime_max = 253402300799999999"

definition datetime_overflow :: "instant \<Rightarrow> bool" where
  "datetime_overflow t = (t < datetime_min \<or> datetime_max < t)"

text \<open>
  \<^verbatim>\<open>timedelta(minutes=m)\<close>: the duration in microseconds. The constructor raises
  \<open>OverflowError\<close> when the whole days of the duration (\<open>m div 1440\<close>, rounded down)
  exceed 999999999 in magnitude.
\<close>

definition timedelta_minutes :: "int \<Rightarrow> int" where
  "timedelta_minutes m = m * 60000000"

definition timedelta_overflow :: "int \<Rightarrow> bool" where
  "timedelta_overflow m = (m div 1440 < - 999999999 \<or> 999999999 < m div 1440)"

text \<open>\<^verbatim>\<open>timegm(d.utctimetuple())\<close>: the whole seconds of an instant (the microseconds are dropped).\<close>

definition timegm :: "instant \<Rightarrow> int" where
  "timegm t = t div 1000000"

subsection \<open>Claims and tokens (the python-jose calls of the program)\<close>

text \<open>
  A claims dictionary is an association list in insertion order, as a Python dict is.
  Its values are JSON scalars, or a \<^verbatim>\<open>datetime\<close> as \<^verbatim>\<open>create_token\<close> stores under
  \<^verbatim>\<open>"exp"\<close>.
\<close>

datatype claim = Str string | Num int | Bool bool | Null | Datetime instant

type_synonym claims = "(string \<times> claim) list"

text \<open>Python truthiness of \<^verbatim>\<open>payload.get("sub")\<close>: \<open>None\<close> is the missing key.\<close>

fun truthy :: "claim option \<Rightarrow> bool" where
  "truthy None = False"
| "truthy (Some (Str s)) = (s \<noteq> [])"
| "truthy (Some (Num n)) = (n \<noteq> 0)"
| "truthy (Some (Bool b)) = b"
| "truthy (Some Null) = False"
| "truthy (Some (Datetime t)) = True"

text \<open>
  A token is kept symbolically: \<open>Jwt alg key payload\<close> is the compact serialisation of
  \<open>payload\<close> signed with \<open>key\<close> under algorithm \<open>alg\<close>; \<open>Malformed s\<close> is any bearer
  string that is not such a serialisation. The signature verifies exactly when the
  verifier holds the key the token records.
\<close>

datatype token = Jwt string string claims | Malformed string

text \<open>
  \<^verbatim>\<open>jwt.encode\<close> turns a datetime under \<^verbatim>\<open>exp\<close>, \<^verbatim>\<open>iat\<close> or \<^verbatim>\<open>nbf\<close> into whole
  seconds, then serialises the claims as JSON, which raises on any datetime left.
\<close>

fun intdate :: "string \<times> claim \<Rightarrow> string \<times> claim" where
  "intdate (k, Datetime t) =
     (if k \<in> {''exp'', ''iat'', ''nbf''} then (k, Num (timegm t)) else (k, Datetime t))"
| "intdate (k, v) = (k, v)"

fun json_scalar :: "string \<times> claim \<Rightarrow> bool" where
  "json_scalar (k, Datetime t) = False"
| "json_scalar (k, v) = True"

definition jwt_encode :: "claims \<Rightarrow> string \<Rightarrow> string \<Rightarrow> error + token" where
  "jwt_encode to_encode key algorithm =
     (let payload = map intdate to_encode
      in if list_all json_scalar payload then Inr (Jwt algorithm key payload)
         else Inl TypeError)"

text \<open>
  Python's \<^verbatim>\<open>int(x)\<close> on a JSON value, which the library applies to the time claims.
  A string must be an optional sign and decimal digits, single underscores between
  digits allowed, blanks around it ignored (characters are bytes here, so digits
  outside ASCII are not read); \<open>None\<close> is a \<open>TypeError\<close>.
\<close>

definition py_space :: "char \<Rightarrow> bool" where
  "py_space c = (c \<in> {CHR 0x09, CHR 0x0A, CHR 0x0B, CHR 0x0C, CHR 0x0D, CHR 0x20})"

definition digit :: "char \<Rightarrow> int option" where
  "digit c =
     (let n = (of_char c :: nat)
      in if 48 \<le> n \<and> n \<le> 57 then Some (int n - 48) else None)"

fun digits :: "int \<Rightarrow> string \<Rightarrow> int option" where
  "digits n [] = Some n"
| "digits n (c # cs) =
     (case digit c of
        Some d \<Rightarrow> digits (10 * n + d) cs
      | None \<Rightarrow>
          if c = CHR ''_'' then
            (case cs of
               [] \<Rightarrow> None
             | c' # cs' \<Rightarrow>
                 (case digit c' of Some d \<Rightarrow> digits (10 * n + d) cs' | None \<Rightarrow> None))
          else None)"

definition unsigned :: "string \<Rightarrow> int option" where
  "unsigned s =
     (case s of
        [] \<Rightarrow> None
      | c # cs \<Rightarrow> (case digit c of Some d \<Rightarrow> digits d cs | None \<Rightarrow> None))"

definition int_of_str :: "string \<Rightarrow> int option" where
  "int_of_str s =
     (case rev (dropWhile py_space (rev (dropWhile py_space s))) of
        [] \<Rightarrow> None
      | c # cs \<Rightarrow>
          if c = CHR ''+'' then unsigned cs
          else if c = CHR ''-'' then map_option uminus (unsigned cs)
          else unsigned (c # cs))"

fun py_int :: "claim \<Rightarrow> error + int" where
  "py_int (Num n) = Inr n"
| "py_int (Bool b) = Inr (if b then 1 else 0)"
| "py_int (Str s) = (case int_of_str s of None \<Rightarrow> Inl ValueError | Some n \<Rightarrow> Inr n)"
| "py_int Null = Inl TypeError"
| "py_int (Datetime t) = Inl TypeError"

text \<open>The library's \<^verbatim>\<open>try: int(...) except ValueError: raise JWTClaimsError\<close>.\<close>

definition int_claim :: "claim \<Rightarrow> error + int" where
  "int_claim v =
     (case py_int v of
        Inl e \<Rightarrow> if e = ValueError then Inl JWTClaimsError else Inl e
      | Inr n \<Rightarrow> Inr n)"

text \<open>
  The validation of the registered claims, as \<^verbatim>\<open>jwt.decode\<close> runs it when called
  with a key and a list of algorithms only (no audience, issuer, subject or access
  token, no leeway): \<^verbatim>\<open>iat\<close> must be an integer; \<^verbatim>\<open>nbf\<close> must not lie after the
  clock's whole seconds; \<^verbatim>\<open>exp\<close> must not lie before them; an \<^verbatim>\<open>aud\<close> claim never
  matches the missing audience; \<^verbatim>\<open>iss\<close> is not looked at; \<^verbatim>\<open>sub\<close> and \<^verbatim>\<open>jti\<close> must
  be strings; an \<^verbatim>\<open>at_hash\<close> claim has no access token to be compared with.
\<close>

definition validate_iat :: "claims \<Rightarrow> error + unit" where
  "validate_iat payload =
     (case map_of payload ''iat'' of
        None \<Rightarrow> Inr ()
      | Some v \<Rightarrow> (case int_claim v of Inl e \<Rightarrow> Inl e | Inr iat \<Rightarrow> Inr ()))"

definition validate_nbf :: "claims \<Rightarrow> instant \<Rightarrow> error + unit" where
  "validate_nbf payload now =
     (case map_of payload ''nbf'' of
        None \<Rightarrow> Inr ()
      | Some v \<Rightarrow>
          (case int_claim v of
             Inl e \<Rightarrow> Inl e
           | Inr nbf \<Rightarrow> if nbf > timegm now then Inl JWTClaimsError else Inr ()))"

definition validate_exp :: "claims \<Rightarrow> instant \<Rightarrow> error + unit" where
  "validate_exp payload now =
     (case map_of payload ''exp'' of
        None \<Rightarrow> Inr ()
      | Some v \<Rightarrow>
          (case int_claim v of
             Inl e \<Rightarrow> Inl e
           | Inr exp \<Rightarrow> if exp < timegm now then Inl ExpiredSignatureError else Inr ()))"

definition validate_aud :: "claims \<Rightarrow> error + unit" where
  "validate_aud payload =
     (case map_of payload ''aud'' of None \<Rightarrow> Inr () | Some v \<Rightarrow> Inl JWTClaimsError)"

definition validate_sub :: "claims \<Rightarrow> error + unit" where
  "validate_sub payload =
     (case map_of payload ''sub'' of
        None \<Rightarrow> Inr ()
      | Some (Str s) \<Rightarrow> Inr ()
      | Some _ \<Rightarrow> Inl JWTClaimsError)"

definition validate_jti :: "claims \<Rightarrow> error + unit" where
  "validate_jti payload =
     (case map_of payload ''jti'' of
        None \<Rightarrow> Inr ()
      | Some (Str s) \<Rightarrow> Inr ()
      | Some _ \<Rightarrow> Inl JWTClaimsError)"

definition validate_at_hash :: "claims \<Rightarrow> error + unit" where
  "validate_at_hash payload =
     (case map_of payload ''at_hash'' of None \<Rightarrow> Inr () | Some v \<Rightarrow> Inl JWTClaimsError)"

text \<open>The checks run in this order, and the first that fails raises.\<close>

definition validate_claims :: "claims \<Rightarrow> instant \<Rightarrow> error + unit" where
  "validate_claims payload now =
     (case validate_iat payload of Inl e \<Rightarrow> Inl e | Inr _ \<Rightarrow>
      case validate_nbf payload now of Inl e \<Rightarrow> Inl e | Inr _ \<Rightarrow>
      case validate_exp payload now of Inl e \<Rightarrow> Inl e | Inr _ \<Rightarrow>
      case validate_aud payload of Inl e \<Rightarrow> Inl e | Inr _ \<Rightarrow>
      case validate_sub payload of Inl e \<Rightarrow> Inl e | Inr _ \<Rightarrow>
      case validate_jti payload of Inl e \<Rightarrow> Inl e | Inr _ \<Rightarrow>
      validate_at_hash payload)"

text \<open>
  \<^verbatim>\<open>jwt.decode\<close>: the token must parse, its algorithm must be one of the allowed ones,
  its signature must verify under the key, its payload must be JSON (a \<open>Jwt\<close> with a
  datetime in it is no serialisation of anything), and its registered claims must
  validate. JSON numbers with a fraction, lists and objects are no values of \<open>claim\<close>:
  the program never puts one into a token.
\<close>

definition jwt_decode :: "token \<Rightarrow> string \<Rightarrow> string list \<Rightarrow> instant \<Rightarrow> error + claims" where
  "jwt_decode tok key algorithms now =
     (case tok of
        Malformed s \<Rightarrow> Inl JWTError
      | Jwt alg signing_key payload \<Rightarrow>
          if alg \<notin> set algorithms then Inl JWTError
          else if signing_key \<noteq> key then Inl JWTError
          else if \<not> list_all json_scalar payload then Inl JWTError
          else (case validate_claims payload now of
                  Inl e \<Rightarrow> Inl e
                | Inr _ \<Rightarrow> Inr payload))"

subsection \<open>Configuration (lines 19 to 21)\<close>

text \<open>\<open>SECRET_KEY\<close> takes the value of the environment variable \<^verbatim>\<open>JWT_SECRET_KEY\<close>, if set.\<close>

definition SECRET_KEY :: "string option \<Rightarrow> string" where
  "SECRET_KEY env = (case env of None \<Rightarrow> ''super-secret-key'' | Some k \<Rightarrow> k)"

definition ALGORITHM :: string where
  "ALGORITHM = ''HS256''"

definition ACCESS_TOKEN_EXPIRE_MINUTES :: int where
  "ACCESS_TOKEN_EXPIRE_MINUTES = 30"

subsection \<open>Request and response models (lines 45 to 76)\<close>

text \<open>
  Field names are the source's. \<open>UserSignIn\<close> and \<open>UserResponse\<close> repeat names of
  \<open>UserSignUp\<close>, so theirs carry a prefix or a prime. A row of the table \<^verbatim>\<open>users\<close>
  and the \<^verbatim>\<open>profile\<close> dictionary of \<^verbatim>\<open>signup\<close> have the columns of \<open>UserResponse\<close>
  and are represented by it; \<open>created_at\<close> holds the instant whose ISO text the field is.
\<close>

record UserSignUp =
  name :: string
  email :: string
  password :: string
  gender :: "string option"
  age_group :: "string option"
  profession :: "string option"
  purposes :: "string list option"
  custom_purpose :: "string option"

record UserSignIn =
  signin_email :: string
  signin_password :: string

record UserResponse =
  id' :: string
  name' :: string
  email' :: string
  gender' :: "string option"
  age_group' :: "string option"
  profession' :: "string option"
  purposes' :: "string list option"
  custom_purpose' :: "string option"
  subscription_plan :: "string option"
  subscription_status :: "string option"
  created_at :: "instant option"

record TokenResponse =
  access_token :: token
  token_type :: string
  message :: string
  user :: UserResponse

subsection \<open>The provider (the Supabase client calls of the program)\<close>

text \<open>A row of the table \<^verbatim>\<open>subscription_usage\<close>, and an identity of the identity service.\<close>

record usage =
  user_id :: string
  month :: int
  year :: int
  speeches_limit :: int
  speeches_used :: int
  evaluations_limit :: int
  evaluations_used :: int

record identity =
  identity_id :: string
  identity_email :: string
  identity_password :: string
  email_confirm :: bool

text \<open>The remote calls the program makes, with their arguments.\<close>

datatype call =
    Select_users_email string
  | Select_users_id claim
  | Create_user string string
  | Sign_in_with_password string string
  | Insert_users UserResponse
  | Insert_subscription_usage usage

text \<open>
  The provider as the program sees it. \<open>users\<close>, \<open>subscription_usage\<close> and
  \<open>identities\<close> are what it stores. The identity service is opaque to the program:
  \<open>create_reply\<close> and \<open>sign_in_reply\<close> give the \<^verbatim>\<open>user\<close> of its reply (by the
  user's id), \<open>None\<close> for a reply that carries no user. \<open>outage\<close> tells which calls
  fail by raising, \<open>column_default\<close> is what the database puts into \<open>created_at\<close>,
  and \<open>calls\<close> records every call made, in order.
\<close>

record provider =
  users :: "UserResponse list"
  subscription_usage :: "usage list"
  identities :: "identity list"
  create_reply :: "string \<Rightarrow> string \<Rightarrow> string option"
  sign_in_reply :: "string \<Rightarrow> string \<Rightarrow> string option"
  outage :: "call \<Rightarrow> bool"
  column_default :: "instant option"
  calls :: "call list"

definition called :: "provider \<Rightarrow> call \<Rightarrow> provider" where
  "called p c = p\<lparr>calls := calls p @ [c]\<rparr>"

text \<open>\<^verbatim>\<open>supabase.table("users").select("email").eq("email", e).execute()\<close>: the list \<^verbatim>\<open>data\<close>.\<close>

definition select_users_email :: "provider \<Rightarrow> string \<Rightarrow> (error + string list) \<times> provider" where
  "select_users_email p e =
     (let c = Select_users_email e
      in if outage p c then (Inl APIError, called p c)
         else (Inr (map email' (filter (\<lambda>r. email' r = e) (users p))), called p c))"

text \<open>
  \<^verbatim>\<open>supabase.table("users").select("*").eq("id", v).single().execute()\<close>: \<^verbatim>\<open>single()\<close>
  asks for exactly one row, and the client raises when the query matches none or
  several. The result is the \<^verbatim>\<open>data\<close> of the response.
\<close>

definition select_users_id_single :: "provider \<Rightarrow> claim \<Rightarrow> (error + UserResponse option) \<times> provider" where
  "select_users_id_single p v =
     (let c = Select_users_id v
      in if outage p c then (Inl APIError, called p c)
         else (case filter (\<lambda>r. Str (id' r) = v) (users p) of
                 [r] \<Rightarrow> (Inr (Some r), called p c)
               | _ \<Rightarrow> (Inl APIError, called p c)))"

text \<open>\<^verbatim>\<open>supabase.auth.admin.create_user({email, password, email_confirm: True})\<close>: \<^verbatim>\<open>auth.user\<close>.\<close>

definition create_user :: "provider \<Rightarrow> string \<Rightarrow> string \<Rightarrow> (error + string option) \<times> provider" where
  "create_user p e pw =
     (let c = Create_user e pw
      in if outage p c then (Inl APIError, called p c)
         else (case create_reply p e pw of
                 None \<Rightarrow> (Inr None, called p c)
               | Some i \<Rightarrow>
                   (Inr (Some i),
                    called (p\<lparr>identities := identities p @
                       [\<lparr>identity_id = i, identity_email = e, identity_password = pw,
                         email_confirm = True\<rparr>]\<rparr>) c)))"

text \<open>\<^verbatim>\<open>supabase.auth.sign_in_with_password({email, password})\<close>: \<^verbatim>\<open>auth.user\<close>.\<close>

definition sign_in_with_password :: "provider \<Rightarrow> string \<Rightarrow> string \<Rightarrow> (error + string option) \<times> provider" where
  "sign_in_with_password p e pw =
     (let c = Sign_in_with_password e pw
      in if outage p c then (Inl APIError, called p c)
         else (Inr (sign_in_reply p e pw), called p c))"

text \<open>\<^verbatim>\<open>supabase.table("users").insert(profile).execute()\<close>\<close>

definition insert_users :: "provider \<Rightarrow> UserResponse \<Rightarrow> (error + unit) \<times> provider" where
  "insert_users p profile =
     (let c = Insert_users profile
      in if outage p c then (Inl APIError, called p c)
         else (Inr (),
               called (p\<lparr>users := users p @ [profile\<lparr>created_at := column_default p\<rparr>]\<rparr>) c))"

text \<open>\<^verbatim>\<open>supabase.table("subscription_usage").insert(row).execute()\<close>\<close>

definition insert_subscription_usage :: "provider \<Rightarrow> usage \<Rightarrow> (error + unit) \<times> provider" where
  "insert_subscription_usage p row =
     (let c = Insert_subscription_usage row
      in if outage p c then (Inl APIError, called p c)
         else (Inr (), called (p\<lparr>subscription_usage := subscription_usage p @ [row]\<rparr>) c))"

subsection \<open>Utility functions (lines 85 to 100)\<close>

text \<open>\<open>env\<close> is the value of the environment variable \<^verbatim>\<open>JWT_SECRET_KEY\<close>. The
  source's local variable \<^verbatim>\<open>user_id\<close> is \<open>uid\<close> here (\<open>user_id\<close> is the column of
  \<^verbatim>\<open>subscription_usage\<close>).\<close>

text \<open>
  Line 86 raises \<open>OverflowError\<close> when the duration is no \<^verbatim>\<open>timedelta\<close> or the sum
  is no \<^verbatim>\<open>datetime\<close>; nothing in \<^verbatim>\<open>create_token\<close> or its callers catches it.
\<close>

definition create_token :: "string option \<Rightarrow> clock \<Rightarrow> claims \<Rightarrow> int \<Rightarrow> error + token" where
  "create_token env clk data expires_minutes =
     (if timedelta_overflow expires_minutes then Inl OverflowError
      else
        (let expire = utcnow clk + timedelta_minutes expires_minutes
         in if datetime_overflow expire then Inl OverflowError
            else
              (let to_encode = AList.update ''exp'' (Datetime expire) data
               in jwt_encode to_encode (SECRET_KEY env) ALGORITHM)))"

text \<open>
  Lines 92 to 95, the part of the \<^verbatim>\<open>try\<close> block of \<^verbatim>\<open>get_current_user\<close> before
  the lookup: decode the token and read its subject.
\<close>

definition validate :: "string option \<Rightarrow> clock \<Rightarrow> token \<Rightarrow> error + claim" where
  "validate env clk credentials =
     (case jwt_decode credentials (SECRET_KEY env) [ALGORITHM] (utcnow clk) of
        Inl e \<Rightarrow> Inl e
      | Inr payload \<Rightarrow>
          (let uid = map_of payload ''sub''
           in if \<not> truthy uid then Inl (Exception ''Invalid token'')
              else Inr (the uid)))"

text \<open>
  Every exception of the \<^verbatim>\<open>try\<close> block, from the token or from the lookup, becomes
  the same \<open>HTTPException\<close>.
\<close>

definition get_current_user ::
    "string option \<Rightarrow> clock \<Rightarrow> provider \<Rightarrow> token \<Rightarrow> (error + UserResponse option) \<times> provider" where
  "get_current_user env clk p credentials =
     (case validate env clk credentials of
        Inl e \<Rightarrow> (Inl (HTTPException 401 ''Invalid or expired token''), p)
      | Inr uid \<Rightarrow>
          (case select_users_id_single p uid of
             (Inl e, p') \<Rightarrow> (Inl (HTTPException 401 ''Invalid or expired token''), p')
           | (Inr data, p') \<Rightarrow> (Inr data, p')))"

subsection \<open>Routes (lines 107 to 187)\<close>

text \<open>Lines 124 to 135, the \<^verbatim>\<open>profile\<close> dictionary, and lines 141 to 149, the usage row.\<close>

definition profile :: "UserSignUp \<Rightarrow> string \<Rightarrow> UserResponse" where
  "profile data uid =
     \<lparr>id' = uid, name' = name data, email' = email data,
      gender' = gender data, age_group' = age_group data,
      profession' = profession data, purposes' = purposes data,
      custom_purpose' = custom_purpose data,
      subscription_plan = Some ''free'',
      subscription_status = Some ''active'',
      created_at = None\<rparr>"

definition default_usage :: "clock \<Rightarrow> string \<Rightarrow> usage" where
  "default_usage clk uid =
     \<lparr>user_id = uid, month = now_month clk, year = now_year clk,
      speeches_limit = 1, speeches_used = 0,
      evaluations_limit = 1, evaluations_used = 0\<rparr>"

definition signup ::
    "string option \<Rightarrow> clock \<Rightarrow> provider \<Rightarrow> UserSignUp \<Rightarrow> (error + TokenResponse) \<times> provider" where
  "signup env clk p data =
     (case select_users_email p (email data) of
        (Inl e, p1) \<Rightarrow> (Inl e, p1)
      | (Inr existing, p1) \<Rightarrow>
          if existing \<noteq> [] then (Inl (HTTPException 400 ''Email already in use''), p1)
          else
            (case create_user p1 (email data) (password data) of
               (Inl e, p2) \<Rightarrow> (Inl e, p2)
             | (Inr None, p2) \<Rightarrow> (Inl (HTTPException 400 ''Auth creation failed''), p2)
             | (Inr (Some uid), p2) \<Rightarrow>
                 (case insert_users p2 (profile data uid) of
                    (Inl e, p3) \<Rightarrow> (Inl e, p3)
                  | (Inr _, p3) \<Rightarrow>
                      (case insert_subscription_usage p3 (default_usage clk uid) of
                         (Inl e, p4) \<Rightarrow> (Inl e, p4)
                       | (Inr _, p4) \<Rightarrow>
                           (case create_token env clk
                                   [(''sub'', Str uid), (''email'', Str (email data))]
                                   ACCESS_TOKEN_EXPIRE_MINUTES of
                              Inl e \<Rightarrow> (Inl e, p4)
                            | Inr token \<Rightarrow>
                                (Inr \<lparr>access_token = token, token_type = ''bearer'',
                                      message = ''Signup successful'',
                                      user = (profile data uid)
                                               \<lparr>created_at := Some (utcnow clk)\<rparr>\<rparr>,
                                 p4))))))"

definition signin ::
    "string option \<Rightarrow> clock \<Rightarrow> provider \<Rightarrow> UserSignIn \<Rightarrow> (error + TokenResponse) \<times> provider" where
  "signin env clk p data =
     (case sign_in_with_password p (signin_email data) (signin_password data) of
        (Inl e, p1) \<Rightarrow> (Inl e, p1)
      | (Inr None, p1) \<Rightarrow> (Inl (HTTPException 401 ''Invalid credentials''), p1)
      | (Inr (Some uid), p1) \<Rightarrow>
          (case select_users_id_single p1 (Str uid) of
             (Inl e, p2) \<Rightarrow> (Inl e, p2)
           | (Inr None, p2) \<Rightarrow> (Inl (HTTPException 404 ''User profile not found''), p2)
           | (Inr (Some row), p2) \<Rightarrow>
               (case create_token env clk
                       [(''sub'', Str uid), (''email'', Str (signin_email data))]
                       ACCESS_TOKEN_EXPIRE_MINUTES of
                  Inl e \<Rightarrow> (Inl e, p2)
                | Inr token \<Rightarrow>
                    (Inr \<lparr>access_token = token, token_type = ''bearer'',
                          message = ''Signin successful'', user = row\<rparr>,
                     p2))))"

text \<open>
  \<^verbatim>\<open>UserResponse(**current_user)\<close>: keyword expansion of \<open>None\<close> is a \<open>TypeError\<close>,
  raised after the dependency has returned and so outside its \<^verbatim>\<open>try\<close> block.
\<close>

definition me ::
    "string option \<Rightarrow> clock \<Rightarrow> provider \<Rightarrow> token \<Rightarrow> (error + UserResponse) \<times> provider" where
  "me env clk p credentials =
     (case get_current_user env clk p credentials of
        (Inl e, p') \<Rightarrow> (Inl e, p')
      | (Inr None, p') \<Rightarrow> (Inl TypeError, p')
      | (Inr (Some current_user), p') \<Rightarrow> (Inr current_user, p'))"

subsection \<open>The example of the specification\<close>

text \<open>
  A provider with empty tables that answers every call and whose identity service
  hands out the id \<open>u1\<close>; a clock half a second after the epoch; the registration of
  the specification's example.
\<close>

definition example_clock :: clock where
  "example_clock = \<lparr>utcnow = 500000, now_month = 11, now_year = 2026\<rparr>"

definition example_provider :: provider where
  "example_provider =
     \<lparr>users = [], subscription_usage = [], identities = [],
      create_reply = (\<lambda>e pw. Some ''u1''), sign_in_reply = (\<lambda>e pw. Some ''u1''),
      outage = (\<lambda>c. False), column_default = None, calls = []\<rparr>"

definition example_signup :: UserSignUp where
  "example_signup =
     \<lparr>name = ''A'', email = ''a@x.com'', password = ''pw1'', gender = None,
      age_group = None, profession = None, purposes = None, custom_purpose = None\<rparr>"

text \<open>
  The provider after that registration, and a provider whose table
  \<^verbatim>\<open>subscription_usage\<close> cannot be written.
\<close>

definition example_registered :: provider where
  "example_registered =
     example_provider
       \<lparr>users := [profile example_signup ''u1''],
        subscription_usage := [default_usage example_clock ''u1''],
        identities := [\<lparr>identity_id = ''u1'', identity_email = ''a@x.com'',
                        identity_password = ''pw1'', email_confirm = True\<rparr>]\<rparr>"

definition example_usage_outage :: provider where
  "example_usage_outage =
     example_provider
       \<lparr>outage := (\<lambda>c. case c of Insert_subscription_usage row \<Rightarrow> True | _ \<Rightarrow> False)\<rparr>"

section \<open>Properties\<close>

subsection \<open>Encoding and decoding\<close>

lemma intdate_fst: "fst (intdate kv) = fst kv"
  by (cases kv rule: intdate.cases) simp_all

lemma map_of_map_intdate:
  "map_of (map intdate xs) k = map_option (\<lambda>v. snd (intdate (k, v))) (map_of xs k)"
proof (induction xs)
  case Nil
  show ?case by simp
next
  case (Cons kv xs)
  obtain a b where kv: "kv = (a, b)" by (cases kv)
  have "fst (intdate (a, b)) = a" using intdate_fst [of "(a, b)"] by simp
  then obtain c where c: "intdate (a, b) = (a, c)" by (cases "intdate (a, b)") simp
  show ?case using Cons.IH by (simp add: kv c)
qed

lemma exp_of_encoded:
  "map_of (map intdate (AList.update ''exp'' (Datetime t) data)) ''exp'' = Some (Num (timegm t))"
  by (simp add: map_of_map_intdate update_conv')

lemma intdate_json_scalar: "json_scalar kv \<Longrightarrow> intdate kv = kv"
  by (cases kv rule: intdate.cases) simp_all

lemma json_scalar_update_exp:
  "list_all json_scalar data \<Longrightarrow>
   list_all json_scalar (map intdate (AList.update ''exp'' (Datetime t) data))"
proof (induction data)
  case Nil
  show ?case by simp
next
  case (Cons kv data)
  obtain a b where kv: "kv = (a, b)" by (cases kv)
  from Cons.prems have s: "json_scalar (a, b)" and r: "list_all json_scalar data"
    by (simp_all add: kv)
  have m: "list_all json_scalar (map intdate data)"
    using r by (induction data) (simp_all add: intdate_json_scalar)
  show ?case
  proof (cases "a = ''exp''")
    case True
    then show ?thesis using m by (simp add: kv)
  next
    case False
    then show ?thesis using Cons.IH [OF r] s by (simp add: kv intdate_json_scalar)
  qed
qed

text \<open>
  When line 86 stays in range, a dictionary of JSON scalars encodes; whatever encodes
  has this shape; and out of range nothing is encoded.
\<close>

lemma create_token_returns:
  "list_all json_scalar data \<Longrightarrow> \<not> timedelta_overflow m \<Longrightarrow>
   \<not> datetime_overflow (utcnow clk + timedelta_minutes m) \<Longrightarrow>
   create_token env clk data m =
     Inr (Jwt ALGORITHM (SECRET_KEY env)
            (map intdate (AList.update ''exp'' (Datetime (utcnow clk + timedelta_minutes m)) data)))"
  by (simp add: create_token_def jwt_encode_def json_scalar_update_exp)

lemma create_token_Inr:
  "create_token env clk data m = Inr tok \<Longrightarrow>
   tok = Jwt ALGORITHM (SECRET_KEY env)
            (map intdate (AList.update ''exp'' (Datetime (utcnow clk + timedelta_minutes m)) data))"
  by (simp add: create_token_def jwt_encode_def Let_def split: if_splits)

lemma create_token_overflow:
  "datetime_overflow (utcnow clk + timedelta_minutes m) \<Longrightarrow>
   create_token env clk data m = Inl OverflowError"
  by (simp add: create_token_def)

text \<open>Between two datetimes there is always a \<^verbatim>\<open>timedelta\<close>.\<close>

lemma timedelta_between_datetimes:
  assumes "\<not> datetime_overflow t" and "\<not> datetime_overflow (t + timedelta_minutes m)"
  shows "\<not> timedelta_overflow m"
proof -
  have "- 62135596800000000 \<le> t" "t \<le> 253402300799999999"
    "- 62135596800000000 \<le> t + m * 60000000" "t + m * 60000000 \<le> 253402300799999999"
    using assms
    by (simp_all add: datetime_overflow_def datetime_min_def datetime_max_def
        timedelta_minutes_def)
  then have "- 5258964960 \<le> m" "m \<le> 5258964960" by linarith+
  then have "- 999999999 \<le> m div 1440" "m div 1440 \<le> 999999999" by linarith+
  then show ?thesis by (simp add: timedelta_overflow_def)
qed

lemma get_current_user_invalid:
  "validate env clk tok = Inl e \<Longrightarrow>
   get_current_user env clk p tok = (Inl (HTTPException 401 ''Invalid or expired token''), p)"
  by (simp add: get_current_user_def)

lemma me_invalid:
  "validate env clk tok = Inl e \<Longrightarrow>
   me env clk p tok = (Inl (HTTPException 401 ''Invalid or expired token''), p)"
  by (simp add: me_def get_current_user_invalid)

lemma validate_decode_failed:
  "jwt_decode tok (SECRET_KEY env) [ALGORITHM] (utcnow clk) = Inl e \<Longrightarrow>
   validate env clk tok = Inl e"
  by (simp add: validate_def)

text \<open>A token whose \<^verbatim>\<open>exp\<close> is before the clock's whole seconds never decodes.\<close>

lemma claims_expired:
  "map_of payload ''exp'' = Some (Num n) \<Longrightarrow> n < timegm now \<Longrightarrow>
   \<exists>e. validate_claims payload now = Inl e"
  by (simp add: validate_claims_def validate_exp_def int_claim_def split: sum.splits)

lemma decode_expired_any:
  assumes "map_of payload ''exp'' = Some (Num n)" and "n < timegm now"
  shows "\<exists>e. jwt_decode (Jwt alg k payload) key algs now = Inl e"
proof -
  obtain e where "validate_claims payload now = Inl e"
    using claims_expired [OF assms] by blast
  then show ?thesis by (simp add: jwt_decode_def)
qed

lemma validate_expired:
  assumes "map_of payload ''exp'' = Some (Num n)" and "n < timegm (utcnow clk)"
  shows "\<exists>e. validate env clk (Jwt alg k payload) = Inl e"
proof -
  obtain e where "jwt_decode (Jwt alg k payload) (SECRET_KEY env) [ALGORITHM] (utcnow clk) = Inl e"
    using decode_expired_any [OF assms] by blast
  then have "validate env clk (Jwt alg k payload) = Inl e"
    by (rule validate_decode_failed)
  then show ?thesis by blast
qed

text \<open>The token \<^verbatim>\<open>signup\<close> and \<^verbatim>\<open>signin\<close> issue, and what validating it gives at any time.\<close>

lemma issued_token:
  assumes "\<not> datetime_overflow (utcnow clk + 1800000000)"
  shows "create_token env clk [(''sub'', Str uid), (''email'', Str e)]
           ACCESS_TOKEN_EXPIRE_MINUTES =
         Inr (Jwt ''HS256'' (SECRET_KEY env)
                [(''sub'', Str uid), (''email'', Str e),
                 (''exp'', Num (timegm (utcnow clk + timedelta_minutes 30)))])"
  using assms
  by (simp add: create_token_def jwt_encode_def ALGORITHM_def ACCESS_TOKEN_EXPIRE_MINUTES_def
      timedelta_overflow_def timedelta_minutes_def)

lemma in_range:
  "- 62135596800000000 \<le> t \<Longrightarrow> t \<le> 253402300799999999 \<Longrightarrow> \<not> datetime_overflow t"
  by (simp add: datetime_overflow_def datetime_min_def datetime_max_def)

lemma validate_issued:
  "validate env clk' (Jwt ''HS256'' (SECRET_KEY env)
      [(''sub'', Str subject), (''email'', Str e), (''exp'', Num n)]) =
   (if n < timegm (utcnow clk') then Inl ExpiredSignatureError
    else if subject = [] then Inl (Exception ''Invalid token'')
    else Inr (Str subject))"
  by (simp add: validate_def jwt_decode_def validate_claims_def validate_iat_def
      validate_nbf_def validate_exp_def validate_aud_def validate_sub_def validate_jti_def
      validate_at_hash_def int_claim_def ALGORITHM_def)

subsection \<open>The provider\<close>

lemmas provider_ops =
  select_users_email_def select_users_id_single_def create_user_def sign_in_with_password_def
  insert_users_def insert_subscription_usage_def called_def Let_def

lemmas examples =
  example_clock_def example_provider_def example_signup_def example_registered_def
  example_usage_outage_def

lemma fresh_filter: "\<forall>r\<in>set xs. email' r \<noteq> e \<Longrightarrow> filter (\<lambda>r. email' r = e) xs = []"
  by (induction xs) simp_all

lemma present_filter: "r \<in> set xs \<Longrightarrow> email' r = e \<Longrightarrow> filter (\<lambda>r. email' r = e) xs \<noteq> []"
  by (induction xs) auto

lemma absent_filter: "\<forall>r\<in>set xs. id' r \<noteq> uid \<Longrightarrow> filter (\<lambda>r. id' r = uid) xs = []"
  by (induction xs) simp_all

lemma lookup_missing:
  "\<forall>r\<in>set (users p). id' r \<noteq> uid \<Longrightarrow>
   fst (select_users_id_single p (Str uid)) = Inl APIError"
  by (simp add: select_users_id_single_def Let_def absent_filter)

subsection \<open>The two paths of signup\<close>

lemma signup_existing:
  assumes "r \<in> set (users p)" and "email' r = email data"
    and "\<not> outage p (Select_users_email (email data))"
  shows "signup env clk p data =
           (Inl (HTTPException 400 ''Email already in use''),
            p\<lparr>calls := calls p @ [Select_users_email (email data)]\<rparr>)"
proof -
  have "filter (\<lambda>r. email' r = email data) (users p) \<noteq> []"
    using assms(1,2) by (rule present_filter)
  then show ?thesis
    using assms(3) by (simp add: signup_def provider_ops)
qed

lemma signup_fresh:
  assumes "\<forall>r\<in>set (users p). email' r \<noteq> email data"
    and "\<not> outage p (Select_users_email (email data))"
    and "\<not> outage p (Create_user (email data) (password data))"
    and "create_reply p (email data) (password data) = Some uid"
    and "\<not> outage p (Insert_users (profile data uid))"
  shows "signup env clk p data =
     ((if outage p (Insert_subscription_usage (default_usage clk uid)) then Inl APIError
       else (case create_token env clk [(''sub'', Str uid), (''email'', Str (email data))]
                    ACCESS_TOKEN_EXPIRE_MINUTES of
               Inl e \<Rightarrow> Inl e
             | Inr token \<Rightarrow>
                 Inr \<lparr>access_token = token,
                      token_type = ''bearer'', message = ''Signup successful'',
                      user = (profile data uid)\<lparr>created_at := Some (utcnow clk)\<rparr>\<rparr>)),
      p\<lparr>users := users p @ [(profile data uid)\<lparr>created_at := column_default p\<rparr>],
        subscription_usage :=
          (if outage p (Insert_subscription_usage (default_usage clk uid))
           then subscription_usage p
           else subscription_usage p @ [default_usage clk uid]),
        identities := identities p @
          [\<lparr>identity_id = uid, identity_email = email data,
            identity_password = password data, email_confirm = True\<rparr>],
        calls := calls p @
          [Select_users_email (email data), Create_user (email data) (password data),
           Insert_users (profile data uid),
           Insert_subscription_usage (default_usage clk uid)]\<rparr>)"
proof -
  have "filter (\<lambda>r. email' r = email data) (users p) = []"
    using assms(1) by (rule fresh_filter)
  then show ?thesis
    using assms(2-5) by (simp add: signup_def provider_ops split: sum.splits)
qed

text \<open>The example registration on the example provider.\<close>

lemma example_preconditions:
  "\<forall>r\<in>set (users example_provider). email' r \<noteq> email example_signup"
  "\<not> outage example_provider (Select_users_email (email example_signup))"
  "\<not> outage example_provider (Create_user (email example_signup) (password example_signup))"
  "create_reply example_provider (email example_signup) (password example_signup) = Some ''u1''"
  "\<not> outage example_provider (Insert_users (profile example_signup ''u1''))"
  "\<not> outage example_provider (Insert_subscription_usage (default_usage example_clock ''u1''))"
  by (simp_all add: examples)

lemma example_clock_in_range:
  "- 62135596800000000 \<le> utcnow example_clock + 1800000000"
  "utcnow example_clock + 1800000000 \<le> 253402300799999999"
  by (simp_all add: examples)

subsection \<open>The two failures of signin\<close>

lemma signin_invalid_credentials:
  assumes "\<not> outage p (Sign_in_with_password (signin_email data) (signin_password data))"
    and "sign_in_reply p (signin_email data) (signin_password data) = None"
  shows "fst (signin env clk p data) = Inl (HTTPException 401 ''Invalid credentials'')"
  using assms by (simp add: signin_def provider_ops)

lemma signin_never_404:
  "fst (signin env clk p data) \<noteq> Inl (HTTPException 404 d)"
  by (auto simp: signin_def provider_ops create_token_def jwt_encode_def
      split: if_splits option.splits list.splits sum.splits)

section \<open>The claims\<close>

subsection \<open>The token service\<close>

text \<open>
  Claim C4. For every subject and email, the token \<^verbatim>\<open>create_token\<close> issues with the
  default lifetime is signed with \<open>SECRET_KEY\<close> under the fixed algorithm HS256, and its
  payload is exactly the three claims \<^verbatim>\<open>sub\<close>, \<^verbatim>\<open>email\<close> and \<^verbatim>\<open>exp\<close>, the last
  being the issue instant plus 30 minutes (1800000000 microseconds), in the whole
  seconds a token carries; there is no audience, issuer or other claim. The clock is
  one on which line 86 does not overflow: the instant 30 minutes ahead is a datetime.
\<close>

theorem create_token_payload:
  assumes "- 62135596800000000 \<le> utcnow clk + 1800000000"
    and "utcnow clk + 1800000000 \<le> 253402300799999999"
  shows "create_token env clk [(''sub'', Str subject), (''email'', Str e)]
           ACCESS_TOKEN_EXPIRE_MINUTES =
         Inr (Jwt ''HS256'' (SECRET_KEY env)
                [(''sub'', Str subject), (''email'', Str e),
                 (''exp'', Num ((utcnow clk + 1800000000) div 1000000))])"
  using issued_token [OF in_range [OF assms], of env subject e]
  by (simp add: timegm_def timedelta_minutes_def)

text \<open>
  Issued at 0.5 s with the default secret, the token of \<open>u1\<close> expires at 1800 s; with
  the secret taken from the environment it is signed with that one.
\<close>

theorem create_token_payload_witness:
  "- 62135596800000000 \<le> utcnow example_clock + 1800000000
   \<and> utcnow example_clock + 1800000000 \<le> 253402300799999999
   \<and> create_token None example_clock [(''sub'', Str ''u1''), (''email'', Str ''a@x.com'')]
        ACCESS_TOKEN_EXPIRE_MINUTES =
       Inr (Jwt ''HS256'' ''super-secret-key''
              [(''sub'', Str ''u1''), (''email'', Str ''a@x.com''), (''exp'', Num 1800)])
   \<and> create_token (Some ''s3cret'') example_clock
        [(''sub'', Str ''u1''), (''email'', Str ''a@x.com'')] ACCESS_TOKEN_EXPIRE_MINUTES =
       Inr (Jwt ''HS256'' ''s3cret''
              [(''sub'', Str ''u1''), (''email'', Str ''a@x.com''), (''exp'', Num 1800)])"
  using example_clock_in_range
    create_token_payload [OF example_clock_in_range, of None "''u1''" "''a@x.com''"]
    create_token_payload [OF example_clock_in_range, of "Some ''s3cret''" "''u1''" "''a@x.com''"]
  by (simp add: SECRET_KEY_def example_clock_def)

text \<open>
  Claim C9, as amended. For every dictionary of JSON scalars given to \<^verbatim>\<open>create_token\<close>,
  also one that has an \<^verbatim>\<open>exp\<close> key already, and every \<^verbatim>\<open>expires_minutes\<close> for which
  the clock plus that many minutes (60000000 microseconds each) is a datetime, a token
  is encoded; when that instant is no datetime, line 86 raises \<open>OverflowError\<close> and
  there is no token. The \<^verbatim>\<open>exp\<close> claim of every token encoded is that instant in whole
  seconds, whatever \<^verbatim>\<open>exp\<close> the caller gave. The token is refused as soon as the clock's
  whole seconds are past its \<^verbatim>\<open>exp\<close>, which is one second after the lifetime at the
  latest.
\<close>

theorem create_token_overwrites_exp:
  "(list_all json_scalar data
      \<and> - 62135596800000000 \<le> utcnow clk \<and> utcnow clk \<le> 253402300799999999
      \<and> - 62135596800000000 \<le> utcnow clk + expires_minutes * 60000000
      \<and> utcnow clk + expires_minutes * 60000000 \<le> 253402300799999999
    \<longrightarrow> (\<exists>tok. create_token env clk data expires_minutes = Inr tok))
   \<and> (utcnow clk + expires_minutes * 60000000 < - 62135596800000000
        \<or> 253402300799999999 < utcnow clk + expires_minutes * 60000000
    \<longrightarrow> create_token env clk data expires_minutes = Inl OverflowError)
   \<and> (\<forall>tok. create_token env clk data expires_minutes = Inr tok \<longrightarrow>
          (\<exists>payload. tok = Jwt ''HS256'' (SECRET_KEY env) payload
             \<and> map_of payload ''exp'' =
                 Some (Num ((utcnow clk + expires_minutes * 60000000) div 1000000))
             \<and> (\<forall>clk' p. (utcnow clk + expires_minutes * 60000000) div 1000000
                            < utcnow clk' div 1000000 \<longrightarrow>
                   get_current_user env clk' p tok =
                     (Inl (HTTPException 401 ''Invalid or expired token''), p))
             \<and> (\<forall>clk' p. utcnow clk + expires_minutes * 60000000 + 1000000 \<le> utcnow clk' \<longrightarrow>
                   get_current_user env clk' p tok =
                     (Inl (HTTPException 401 ''Invalid or expired token''), p))))"
proof (intro conjI allI impI)
  assume a: "list_all json_scalar data
      \<and> - 62135596800000000 \<le> utcnow clk \<and> utcnow clk \<le> 253402300799999999
      \<and> - 62135596800000000 \<le> utcnow clk + expires_minutes * 60000000
      \<and> utcnow clk + expires_minutes * 60000000 \<le> 253402300799999999"
  then have d: "\<not> datetime_overflow (utcnow clk)"
    and e: "\<not> datetime_overflow (utcnow clk + timedelta_minutes expires_minutes)"
    by (simp_all add: in_range timedelta_minutes_def)
  have "\<not> timedelta_overflow expires_minutes"
    using d e by (rule timedelta_between_datetimes)
  then show "\<exists>tok. create_token env clk data expires_minutes = Inr tok"
    using a e by (simp add: create_token_returns)
next
  assume "utcnow clk + expires_minutes * 60000000 < - 62135596800000000
            \<or> 253402300799999999 < utcnow clk + expires_minutes * 60000000"
  then have "datetime_overflow (utcnow clk + timedelta_minutes expires_minutes)"
    by (simp add: datetime_overflow_def datetime_min_def datetime_max_def timedelta_minutes_def)
  then show "create_token env clk data expires_minutes = Inl OverflowError"
    by (rule create_token_overflow)
next
  fix tok
  assume t: "create_token env clk data expires_minutes = Inr tok"
  let ?n = "(utcnow clk + expires_minutes * 60000000) div 1000000"
  let ?payload = "map intdate (AList.update ''exp''
                    (Datetime (utcnow clk + timedelta_minutes expires_minutes)) data)"
  have tok: "tok = Jwt ''HS256'' (SECRET_KEY env) ?payload"
    using create_token_Inr [OF t] by (simp add: ALGORITHM_def)
  have e: "map_of ?payload ''exp'' = Some (Num ?n)"
    using exp_of_encoded [of "utcnow clk + timedelta_minutes expires_minutes" data]
    by (simp add: timegm_def timedelta_minutes_def)
  have late: "get_current_user env clk' p tok =
                (Inl (HTTPException 401 ''Invalid or expired token''), p)"
    if "?n < utcnow clk' div 1000000" for clk' p
  proof -
    have "?n < timegm (utcnow clk')" using that by (simp add: timegm_def)
    then obtain x where "validate env clk' tok = Inl x"
      unfolding tok using validate_expired [OF e] by blast
    then show ?thesis by (rule get_current_user_invalid)
  qed
  have later: "get_current_user env clk' p tok =
                 (Inl (HTTPException 401 ''Invalid or expired token''), p)"
    if "utcnow clk + expires_minutes * 60000000 + 1000000 \<le> utcnow clk'" for clk' p
  proof -
    have "(utcnow clk + expires_minutes * 60000000 + 1000000) div 1000000
            \<le> utcnow clk' div 1000000"
      using that by (rule zdiv_mono1) simp
    then have "?n < utcnow clk' div 1000000" by simp
    then show ?thesis by (rule late)
  qed
  show "\<exists>payload. tok = Jwt ''HS256'' (SECRET_KEY env) payload
          \<and> map_of payload ''exp'' = Some (Num ?n)
          \<and> (\<forall>clk' p. ?n < utcnow clk' div 1000000 \<longrightarrow>
                get_current_user env clk' p tok =
                  (Inl (HTTPException 401 ''Invalid or expired token''), p))
          \<and> (\<forall>clk' p. utcnow clk + expires_minutes * 60000000 + 1000000 \<le> utcnow clk' \<longrightarrow>
                get_current_user env clk' p tok =
                  (Inl (HTTPException 401 ''Invalid or expired token''), p))"
    using tok e late later by blast
qed

text \<open>
  At 0.5 s the caller asks for five minutes and gives an expiry in the year 5138: the
  token expires at 300 s and is refused at 301.5 s. Asked for ten thousand million
  minutes, \<^verbatim>\<open>create_token\<close> raises.
\<close>

theorem create_token_overwrites_exp_witness:
  "list_all json_scalar [(''sub'', Str ''u1''), (''exp'', Num 99999999999)]
   \<and> create_token None example_clock [(''sub'', Str ''u1''), (''exp'', Num 99999999999)] 5 =
       Inr (Jwt ''HS256'' ''super-secret-key'' [(''sub'', Str ''u1''), (''exp'', Num 300)])
   \<and> utcnow example_clock + 5 * 60000000 + 1000000 \<le> utcnow (example_clock\<lparr>utcnow := 301500000\<rparr>)
   \<and> get_current_user None (example_clock\<lparr>utcnow := 301500000\<rparr>) example_registered
        (Jwt ''HS256'' ''super-secret-key'' [(''sub'', Str ''u1''), (''exp'', Num 300)]) =
       (Inl (HTTPException 401 ''Invalid or expired token''), example_registered)
   \<and> 253402300799999999 < utcnow example_clock + 10000000000 * 60000000
   \<and> create_token None example_clock [(''sub'', Str ''u1''), (''exp'', Num 99999999999)]
        10000000000 = Inl OverflowError"
proof -
  let ?data = "[(''sub'', Str ''u1''), (''exp'', Num 99999999999)]"
  let ?tok = "Jwt ''HS256'' ''super-secret-key'' [(''sub'', Str ''u1''), (''exp'', Num 300)]"
  let ?late = "example_clock\<lparr>utcnow := 301500000\<rparr>"
  have s: "list_all json_scalar ?data" by simp
  have r: "- 62135596800000000 \<le> utcnow example_clock"
    "utcnow example_clock \<le> 253402300799999999"
    "- 62135596800000000 \<le> utcnow example_clock + 5 * 60000000"
    "utcnow example_clock + 5 * 60000000 \<le> 253402300799999999"
    by (simp_all add: example_clock_def)
  have l: "utcnow example_clock + 5 * 60000000 + 1000000 \<le> utcnow ?late"
    by (simp add: example_clock_def)
  have o: "253402300799999999 < utcnow example_clock + 10000000000 * 60000000"
    by (simp add: example_clock_def)
  from create_token_overwrites_exp [of ?data example_clock 5 None] s r
  obtain tok where t: "create_token None example_clock ?data 5 = Inr tok"
    by blast
  from create_token_overwrites_exp [of ?data example_clock 5 None] t l
  obtain payload where p: "tok = Jwt ''HS256'' (SECRET_KEY None) payload"
    and x: "map_of payload ''exp'' = Some (Num ((utcnow example_clock + 5 * 60000000) div 1000000))"
    and g: "get_current_user None ?late example_registered tok =
              (Inl (HTTPException 401 ''Invalid or expired token''), example_registered)"
    by blast
  have c: "create_token None example_clock ?data 5 = Inr ?tok"
    by (simp add: create_token_def jwt_encode_def example_clock_def timedelta_minutes_def
        timedelta_overflow_def datetime_overflow_def datetime_min_def datetime_max_def
        timegm_def SECRET_KEY_def ALGORITHM_def)
  have "tok = ?tok" using t c by simp
  with g have g': "get_current_user None ?late example_registered ?tok =
              (Inl (HTTPException 401 ''Invalid or expired token''), example_registered)"
    by simp
  have v: "create_token None example_clock ?data 10000000000 = Inl OverflowError"
    using create_token_overwrites_exp [of ?data example_clock 10000000000 None] o by blast
  show ?thesis using s c l g' o v by simp
qed

text \<open>
  Claim C9 as stated fails twice. The token minted at 0.5 s with 30 minutes, whose
  lifetime ends at 1800.5 s, is still accepted at 1800.7 s and
  \<^verbatim>\<open>get_current_user\<close> returns the account: its \<^verbatim>\<open>exp\<close> is 1800 whole seconds and
  the clock's whole seconds are not past it. And for ten thousand million minutes
  there is no encoded token at all: line 86 raises.
\<close>

theorem create_token_overwrites_exp_counterexample:
  "create_token None example_clock [(''sub'', Str ''u1''), (''exp'', Num 99999999999)] 30 =
     Inr (Jwt ''HS256'' ''super-secret-key'' [(''sub'', Str ''u1''), (''exp'', Num 1800)])
   \<and> utcnow example_clock + 30 * 60000000 < utcnow (example_clock\<lparr>utcnow := 1800700000\<rparr>)
   \<and> fst (get_current_user None (example_clock\<lparr>utcnow := 1800700000\<rparr>) example_registered
        (Jwt ''HS256'' ''super-secret-key'' [(''sub'', Str ''u1''), (''exp'', Num 1800)])) =
       Inr (Some (profile example_signup ''u1''))
   \<and> create_token None example_clock [(''sub'', Str ''u1'')] 10000000000 = Inl OverflowError"
  by (simp add: create_token_def jwt_encode_def example_clock_def timedelta_minutes_def
      timedelta_overflow_def datetime_overflow_def datetime_min_def datetime_max_def
      timegm_def SECRET_KEY_def ALGORITHM_def get_current_user_def validate_def jwt_decode_def
      validate_claims_def validate_iat_def validate_nbf_def validate_exp_def validate_aud_def
      validate_sub_def validate_jti_def validate_at_hash_def int_claim_def
      select_users_id_single_def called_def example_registered_def example_provider_def
      profile_def)

text \<open>
  Claim C1, as amended. For every subject that is not the empty string, and every
  email, the token issued for them validates to that subject at the instant of issue,
  and at any later instant exactly as long as the clock, in whole seconds, is not past
  the token's \<^verbatim>\<open>exp\<close>; from one second after the 30 minutes at the latest,
  validation fails and \<^verbatim>\<open>get_current_user\<close> answers 401 without a lookup. The clock
  at issue is one on which line 86 does not overflow.
\<close>

theorem token_round_trip:
  assumes "subject \<noteq> []"
    and "- 62135596800000000 \<le> utcnow clk + 1800000000"
    and "utcnow clk + 1800000000 \<le> 253402300799999999"
  shows "\<exists>tok. create_token env clk [(''sub'', Str subject), (''email'', Str e)]
                 ACCESS_TOKEN_EXPIRE_MINUTES = Inr tok
          \<and> validate env clk tok = Inr (Str subject)
          \<and> (\<forall>clk'. validate env clk' tok =
                 (if timegm (utcnow clk + timedelta_minutes 30) < timegm (utcnow clk')
                  then Inl ExpiredSignatureError else Inr (Str subject)))
          \<and> (\<forall>clk' p. utcnow clk + timedelta_minutes 30 + 1000000 \<le> utcnow clk' \<longrightarrow>
                 validate env clk' tok = Inl ExpiredSignatureError
                 \<and> get_current_user env clk' p tok =
                     (Inl (HTTPException 401 ''Invalid or expired token''), p))"
proof -
  let ?n = "timegm (utcnow clk + timedelta_minutes 30)"
  let ?tok = "Jwt ''HS256'' (SECRET_KEY env)
                [(''sub'', Str subject), (''email'', Str e), (''exp'', Num ?n)]"
  have c: "create_token env clk [(''sub'', Str subject), (''email'', Str e)]
             ACCESS_TOKEN_EXPIRE_MINUTES = Inr ?tok"
    using in_range [OF assms(2,3)] by (rule issued_token)
  have v: "validate env clk' ?tok =
             (if ?n < timegm (utcnow clk') then Inl ExpiredSignatureError else Inr (Str subject))"
    for clk'
    using assms(1) by (simp add: validate_issued)
  have now: "\<not> ?n < timegm (utcnow clk)"
    by (simp add: timegm_def timedelta_minutes_def)
  have late: "validate env clk' ?tok = Inl ExpiredSignatureError
              \<and> get_current_user env clk' p ?tok =
                  (Inl (HTTPException 401 ''Invalid or expired token''), p)"
    if "utcnow clk + timedelta_minutes 30 + 1000000 \<le> utcnow clk'" for clk' p
  proof -
    have "timegm (utcnow clk + timedelta_minutes 30 + 1000000) \<le> timegm (utcnow clk')"
      unfolding timegm_def using that by (rule zdiv_mono1) simp
    then have "?n < timegm (utcnow clk')" by (simp add: timegm_def)
    then have x: "validate env clk' ?tok = Inl ExpiredSignatureError" by (simp add: v)
    then have "get_current_user env clk' p ?tok =
                 (Inl (HTTPException 401 ''Invalid or expired token''), p)"
      by (rule get_current_user_invalid)
    with x show ?thesis by simp
  qed
  show ?thesis
    using c v now late by (intro exI [of _ ?tok]) simp
qed

text \<open>
  The token for subject \<open>u1\<close> issued at 0.5 s: it validates at once, and is refused at
  1801.5 s, one second after its 30 minutes.
\<close>

theorem token_round_trip_witness:
  "''u1'' \<noteq> []
   \<and> utcnow example_clock + 1800000000 \<le> 253402300799999999
   \<and> create_token None example_clock [(''sub'', Str ''u1''), (''email'', Str ''a@x.com'')]
        ACCESS_TOKEN_EXPIRE_MINUTES =
       Inr (Jwt ''HS256'' ''super-secret-key''
              [(''sub'', Str ''u1''), (''email'', Str ''a@x.com''), (''exp'', Num 1800)])
   \<and> validate None example_clock
        (Jwt ''HS256'' ''super-secret-key''
           [(''sub'', Str ''u1''), (''email'', Str ''a@x.com''), (''exp'', Num 1800)]) =
       Inr (Str ''u1'')
   \<and> get_current_user None (example_clock\<lparr>utcnow := 1801500000\<rparr>) example_registered
        (Jwt ''HS256'' ''super-secret-key''
           [(''sub'', Str ''u1''), (''email'', Str ''a@x.com''), (''exp'', Num 1800)]) =
       (Inl (HTTPException 401 ''Invalid or expired token''), example_registered)"
proof -
  let ?tok = "Jwt ''HS256'' ''super-secret-key''
                [(''sub'', Str ''u1''), (''email'', Str ''a@x.com''), (''exp'', Num 1800)]"
  have n: "''u1'' \<noteq> []" by simp
  have c: "create_token None example_clock [(''sub'', Str ''u1''), (''email'', Str ''a@x.com'')]
             ACCESS_TOKEN_EXPIRE_MINUTES = Inr ?tok"
    using issued_token [OF in_range [OF example_clock_in_range], of None "''u1''" "''a@x.com''"]
    by (simp add: SECRET_KEY_def example_clock_def timedelta_minutes_def timegm_def)
  have l: "utcnow example_clock + timedelta_minutes 30 + 1000000
             \<le> utcnow (example_clock\<lparr>utcnow := 1801500000\<rparr>)"
    by (simp add: example_clock_def timedelta_minutes_def)
  from token_round_trip [OF n example_clock_in_range, of None "''a@x.com''"] c l
  have "validate None example_clock ?tok = Inr (Str ''u1'')
        \<and> get_current_user None (example_clock\<lparr>utcnow := 1801500000\<rparr>) example_registered ?tok =
            (Inl (HTTPException 401 ''Invalid or expired token''), example_registered)"
    by auto
  with n c example_clock_in_range(2) show ?thesis by simp
qed

text \<open>
  Claim C1 as stated fails twice. The token issued for the empty subject is refused
  at the instant of issue (line 94 takes the empty string for a missing subject). And
  the token issued for \<open>u1\<close> at 0.5 s, whose 30 minutes end at 1800.5 s, still
  validates at 1800.7 s: its \<^verbatim>\<open>exp\<close> is 1800 whole seconds, and a token expires
  when \<^verbatim>\<open>exp\<close> is less than the clock's whole seconds.
\<close>

theorem token_round_trip_counterexample:
  "create_token None example_clock [(''sub'', Str ''''), (''email'', Str ''a@x.com'')]
     ACCESS_TOKEN_EXPIRE_MINUTES =
     Inr (Jwt ''HS256'' ''super-secret-key''
            [(''sub'', Str ''''), (''email'', Str ''a@x.com''), (''exp'', Num 1800)])
   \<and> validate None example_clock
        (Jwt ''HS256'' ''super-secret-key''
           [(''sub'', Str ''''), (''email'', Str ''a@x.com''), (''exp'', Num 1800)]) =
       Inl (Exception ''Invalid token'')
   \<and> create_token None example_clock [(''sub'', Str ''u1''), (''email'', Str ''a@x.com'')]
        ACCESS_TOKEN_EXPIRE_MINUTES =
       Inr (Jwt ''HS256'' ''super-secret-key''
              [(''sub'', Str ''u1''), (''email'', Str ''a@x.com''), (''exp'', Num 1800)])
   \<and> utcnow example_clock + timedelta_minutes 30 < utcnow (example_clock\<lparr>utcnow := 1800700000\<rparr>)
   \<and> validate None (example_clock\<lparr>utcnow := 1800700000\<rparr>)
        (Jwt ''HS256'' ''super-secret-key''
           [(''sub'', Str ''u1''), (''email'', Str ''a@x.com''), (''exp'', Num 1800)]) =
       Inr (Str ''u1'')"
proof -
  have k: "''super-secret-key'' = SECRET_KEY None" by (simp add: SECRET_KEY_def)
  have c: "create_token None example_clock [(''sub'', Str s), (''email'', Str ''a@x.com'')]
             ACCESS_TOKEN_EXPIRE_MINUTES =
           Inr (Jwt ''HS256'' ''super-secret-key''
                  [(''sub'', Str s), (''email'', Str ''a@x.com''), (''exp'', Num 1800)])" for s
    using issued_token [OF in_range [OF example_clock_in_range], of None s "''a@x.com''"]
    by (simp add: SECRET_KEY_def example_clock_def timedelta_minutes_def timegm_def)
  have v1: "validate None example_clock
              (Jwt ''HS256'' ''super-secret-key''
                 [(''sub'', Str ''''), (''email'', Str ''a@x.com''), (''exp'', Num 1800)]) =
            Inl (Exception ''Invalid token'')"
    unfolding k by (simp add: validate_issued example_clock_def timegm_def)
  have v2: "validate None (example_clock\<lparr>utcnow := 1800700000\<rparr>)
              (Jwt ''HS256'' ''super-secret-key''
                 [(''sub'', Str ''u1''), (''email'', Str ''a@x.com''), (''exp'', Num 1800)]) =
            Inr (Str ''u1'')"
    unfolding k by (simp add: validate_issued example_clock_def timegm_def)
  have t: "utcnow example_clock + timedelta_minutes 30
             < utcnow (example_clock\<lparr>utcnow := 1800700000\<rparr>)"
    by (simp add: example_clock_def timedelta_minutes_def)
  show ?thesis using c [of "''''"] c [of "''u1''"] v1 v2 t by simp
qed


text \<open>
  Claim C10. For every token that is correctly signed and unexpired but whose payload
  has no \<^verbatim>\<open>sub\<close> claim, or a falsy one such as the empty string, \<^verbatim>\<open>get_current_user\<close>
  and with it \<^verbatim>\<open>GET /auth/me\<close> fail with 401 "Invalid or expired token"; the
  provider is returned as it was, so no lookup has been made.
\<close>

theorem get_current_user_falsy_sub:
  assumes "jwt_decode tok (SECRET_KEY env) [ALGORITHM] (utcnow clk) = Inr payload"
    and "\<not> truthy (map_of payload ''sub'')"
  shows "get_current_user env clk p tok =
           (Inl (HTTPException 401 ''Invalid or expired token''), p)
         \<and> me env clk p tok = (Inl (HTTPException 401 ''Invalid or expired token''), p)"
proof -
  have "validate env clk tok = Inl (Exception ''Invalid token'')"
    using assms by (simp add: validate_def)
  then show ?thesis
    by (simp add: get_current_user_invalid me_invalid)
qed

text \<open>A signed, unexpired token with no subject, and one with the empty subject.\<close>

theorem get_current_user_falsy_sub_witness:
  "jwt_decode (Jwt ''HS256'' ''super-secret-key'' [(''email'', Str ''a@x.com''), (''exp'', Num 1800)])
      (SECRET_KEY None) [ALGORITHM] (utcnow example_clock) =
     Inr [(''email'', Str ''a@x.com''), (''exp'', Num 1800)]
   \<and> \<not> truthy (map_of [(''email'', Str ''a@x.com''), (''exp'', Num 1800)] ''sub'')
   \<and> me None example_clock example_registered
        (Jwt ''HS256'' ''super-secret-key'' [(''email'', Str ''a@x.com''), (''exp'', Num 1800)]) =
       (Inl (HTTPException 401 ''Invalid or expired token''), example_registered)
   \<and> jwt_decode (Jwt ''HS256'' ''super-secret-key''
        [(''sub'', Str ''''), (''email'', Str ''a@x.com''), (''exp'', Num 1800)])
      (SECRET_KEY None) [ALGORITHM] (utcnow example_clock) =
     Inr [(''sub'', Str ''''), (''email'', Str ''a@x.com''), (''exp'', Num 1800)]
   \<and> \<not> truthy (map_of [(''sub'', Str ''''), (''email'', Str ''a@x.com''), (''exp'', Num 1800)] ''sub'')
   \<and> get_current_user None example_clock example_registered
        (Jwt ''HS256'' ''super-secret-key''
          [(''sub'', Str ''''), (''email'', Str ''a@x.com''), (''exp'', Num 1800)]) =
       (Inl (HTTPException 401 ''Invalid or expired token''), example_registered)"
proof -
  let ?a = "[(''email'', Str ''a@x.com''), (''exp'', Num 1800)]"
  let ?b = "[(''sub'', Str ''''), (''email'', Str ''a@x.com''), (''exp'', Num 1800)]"
  have da: "jwt_decode (Jwt ''HS256'' ''super-secret-key'' ?a) (SECRET_KEY None) [ALGORITHM]
              (utcnow example_clock) = Inr ?a"
    by (simp add: jwt_decode_def validate_claims_def validate_iat_def validate_nbf_def
        validate_exp_def validate_aud_def validate_sub_def validate_jti_def validate_at_hash_def
        int_claim_def SECRET_KEY_def ALGORITHM_def example_clock_def timegm_def)
  have db: "jwt_decode (Jwt ''HS256'' ''super-secret-key'' ?b) (SECRET_KEY None) [ALGORITHM]
              (utcnow example_clock) = Inr ?b"
    by (simp add: jwt_decode_def validate_claims_def validate_iat_def validate_nbf_def
        validate_exp_def validate_aud_def validate_sub_def validate_jti_def validate_at_hash_def
        int_claim_def SECRET_KEY_def ALGORITHM_def example_clock_def timegm_def)
  have ta: "\<not> truthy (map_of ?a ''sub'')" by simp
  have tb: "\<not> truthy (map_of ?b ''sub'')" by simp
  show ?thesis
    using da ta db tb
      get_current_user_falsy_sub [OF da ta, of example_registered]
      get_current_user_falsy_sub [OF db tb, of example_registered]
    by simp
qed

subsection \<open>The routes\<close>

text \<open>
  Claim C2. \<^verbatim>\<open>GET /auth/me\<close> gives the same outward result, 401 "Invalid or expired
  token", for a bearer string that is no token, for an expired token, and for a valid
  token whose subject has no row in \<^verbatim>\<open>users\<close>.
\<close>

theorem me_unauthenticated:
  "me env clk p (Malformed s) = (Inl (HTTPException 401 ''Invalid or expired token''), p)
   \<and> (map_of payload ''exp'' = Some (Num n) \<and> n < timegm (utcnow clk) \<longrightarrow>
        me env clk p (Jwt alg key payload) =
          (Inl (HTTPException 401 ''Invalid or expired token''), p))
   \<and> (validate env clk tok = Inr (Str uid) \<and> (\<forall>r\<in>set (users p). id' r \<noteq> uid) \<longrightarrow>
        fst (me env clk p tok) = Inl (HTTPException 401 ''Invalid or expired token''))"
proof (intro conjI impI)
  have "validate env clk (Malformed s) = Inl JWTError"
    by (simp add: validate_def jwt_decode_def)
  then show "me env clk p (Malformed s) =
               (Inl (HTTPException 401 ''Invalid or expired token''), p)"
    by (rule me_invalid)
next
  assume "map_of payload ''exp'' = Some (Num n) \<and> n < timegm (utcnow clk)"
  then obtain e where
    "jwt_decode (Jwt alg key payload) (SECRET_KEY env) [ALGORITHM] (utcnow clk) = Inl e"
    using decode_expired_any by blast
  then have "validate env clk (Jwt alg key payload) = Inl e"
    by (rule validate_decode_failed)
  then show "me env clk p (Jwt alg key payload) =
               (Inl (HTTPException 401 ''Invalid or expired token''), p)"
    by (rule me_invalid)
next
  assume a: "validate env clk tok = Inr (Str uid) \<and> (\<forall>r\<in>set (users p). id' r \<noteq> uid)"
  then have "fst (select_users_id_single p (Str uid)) = Inl APIError"
    by (simp add: lookup_missing)
  then obtain p' where "select_users_id_single p (Str uid) = (Inl APIError, p')"
    by (cases "select_users_id_single p (Str uid)") simp
  then show "fst (me env clk p tok) = Inl (HTTPException 401 ''Invalid or expired token'')"
    using a by (simp add: me_def get_current_user_def)
qed

text \<open>
  A string that is no token; the token of \<open>u1\<close> read at 1801.5 s, when it has
  expired, against the provider that holds the account; and the same token read at
  once against the provider with no account.
\<close>

theorem me_unauthenticated_witness:
  "me None example_clock example_registered (Malformed ''not.a.token'') =
     (Inl (HTTPException 401 ''Invalid or expired token''), example_registered)
   \<and> (1800::int) < timegm (utcnow (example_clock\<lparr>utcnow := 1801500000\<rparr>))
   \<and> me None (example_clock\<lparr>utcnow := 1801500000\<rparr>) example_registered
        (Jwt ''HS256'' ''super-secret-key''
           [(''sub'', Str ''u1''), (''email'', Str ''a@x.com''), (''exp'', Num 1800)]) =
       (Inl (HTTPException 401 ''Invalid or expired token''), example_registered)
   \<and> validate None example_clock
        (Jwt ''HS256'' ''super-secret-key''
           [(''sub'', Str ''u1''), (''email'', Str ''a@x.com''), (''exp'', Num 1800)]) =
       Inr (Str ''u1'')
   \<and> users example_provider = []
   \<and> fst (me None example_clock example_provider
        (Jwt ''HS256'' ''super-secret-key''
           [(''sub'', Str ''u1''), (''email'', Str ''a@x.com''), (''exp'', Num 1800)])) =
       Inl (HTTPException 401 ''Invalid or expired token'')"
proof -
  let ?payload = "[(''sub'', Str ''u1''), (''email'', Str ''a@x.com''), (''exp'', Num 1800)]"
  let ?tok = "Jwt ''HS256'' ''super-secret-key'' ?payload"
  let ?late = "example_clock\<lparr>utcnow := 1801500000\<rparr>"
  have k: "''super-secret-key'' = SECRET_KEY None" by (simp add: SECRET_KEY_def)
  have x: "map_of ?payload ''exp'' = Some (Num 1800)" by simp
  have l: "(1800::int) < timegm (utcnow ?late)" by (simp add: timegm_def)
  have v: "validate None example_clock ?tok = Inr (Str ''u1'')"
    unfolding k by (simp add: validate_issued example_clock_def timegm_def)
  have u: "users example_provider = []" by (simp add: examples)
  have a: "me None example_clock example_registered (Malformed ''not.a.token'') =
             (Inl (HTTPException 401 ''Invalid or expired token''), example_registered)"
    using me_unauthenticated [where env = None and clk = example_clock
        and p = example_registered and s = "''not.a.token''"]
    by simp
  have b: "me None ?late example_registered ?tok =
             (Inl (HTTPException 401 ''Invalid or expired token''), example_registered)"
    using x l me_unauthenticated [where env = None and clk = ?late and p = example_registered
        and payload = ?payload and n = 1800 and alg = "''HS256''"
        and key = "''super-secret-key''"]
    by simp
  have c: "fst (me None example_clock example_provider ?tok) =
             Inl (HTTPException 401 ''Invalid or expired token'')"
    using v u me_unauthenticated [where env = None and clk = example_clock
        and p = example_provider and tok = ?tok and uid = "''u1''"]
    by simp
  show ?thesis using a l b v u c by simp
qed

text \<open>
  Claim C3. For every signup request whose email already has a row in \<^verbatim>\<open>users\<close>,
  signup fails with 400 "Email already in use" (when the provider answers the
  pre-check), and in every case it creates no identity and writes nothing: the only
  remote call made is the pre-check.
\<close>

theorem signup_duplicate_email:
  assumes "r \<in> set (users p)" and "email' r = email data"
  shows "(\<not> outage p (Select_users_email (email data)) \<longrightarrow>
            fst (signup env clk p data) = Inl (HTTPException 400 ''Email already in use''))
         \<and> identities (snd (signup env clk p data)) = identities p
         \<and> users (snd (signup env clk p data)) = users p
         \<and> subscription_usage (snd (signup env clk p data)) = subscription_usage p
         \<and> calls (snd (signup env clk p data)) = calls p @ [Select_users_email (email data)]"
proof -
  have "filter (\<lambda>r. email' r = email data) (users p) \<noteq> []"
    using assms by (rule present_filter)
  then show ?thesis
    by (simp add: signup_def provider_ops)
qed

text \<open>The example registration, sent to the provider that already holds it.\<close>

theorem signup_duplicate_email_witness:
  "profile example_signup ''u1'' \<in> set (users example_registered)
   \<and> email' (profile example_signup ''u1'') = email example_signup
   \<and> \<not> outage example_registered (Select_users_email (email example_signup))
   \<and> fst (signup None example_clock example_registered example_signup) =
       Inl (HTTPException 400 ''Email already in use'')
   \<and> identities (snd (signup None example_clock example_registered example_signup)) =
       identities example_registered
   \<and> users (snd (signup None example_clock example_registered example_signup)) =
       users example_registered
   \<and> calls (snd (signup None example_clock example_registered example_signup)) =
       [Select_users_email ''a@x.com'']"
proof -
  have r: "profile example_signup ''u1'' \<in> set (users example_registered)"
    by (simp add: examples)
  have e: "email' (profile example_signup ''u1'') = email example_signup"
    by (simp add: profile_def)
  have o: "\<not> outage example_registered (Select_users_email (email example_signup))"
    by (simp add: examples)
  have c: "calls example_registered = []" "email example_signup = ''a@x.com''"
    by (simp_all add: examples)
  show ?thesis
    using r e o c signup_duplicate_email [OF r e, of None example_clock]
    by simp
qed

text \<open>
  Claim C6. Every successful signup appends exactly one row to \<^verbatim>\<open>subscription_usage\<close>:
  its \<^verbatim>\<open>user_id\<close> is the id of the account just written, its month and year are the
  clock's, and its counters are 1, 0, 1, 0.
\<close>

theorem signup_usage_record:
  assumes "signup env clk p data = (Inr resp, p')"
  shows "subscription_usage p' = subscription_usage p @
           [\<lparr>user_id = id' (user resp), month = now_month clk, year = now_year clk,
             speeches_limit = 1, speeches_used = 0,
             evaluations_limit = 1, evaluations_used = 0\<rparr>]
         \<and> users p' = users p @ [(user resp)\<lparr>created_at := column_default p\<rparr>]"
  using assms
  by (auto simp: signup_def provider_ops profile_def default_usage_def
      split: if_splits option.splits sum.splits)

text \<open>The example registration succeeds and leaves the one usage row of November 2026.\<close>

theorem signup_usage_record_witness:
  "fst (signup None example_clock example_provider example_signup) =
     Inr \<lparr>access_token =
            Jwt ''HS256'' ''super-secret-key''
              [(''sub'', Str ''u1''), (''email'', Str ''a@x.com''), (''exp'', Num 1800)],
          token_type = ''bearer'', message = ''Signup successful'',
          user = (profile example_signup ''u1'')\<lparr>created_at := Some 500000\<rparr>\<rparr>
   \<and> subscription_usage (snd (signup None example_clock example_provider example_signup)) =
       [\<lparr>user_id = ''u1'', month = 11, year = 2026, speeches_limit = 1, speeches_used = 0,
         evaluations_limit = 1, evaluations_used = 0\<rparr>]"
proof -
  let ?resp = "\<lparr>access_token =
            Jwt ''HS256'' ''super-secret-key''
              [(''sub'', Str ''u1''), (''email'', Str ''a@x.com''), (''exp'', Num 1800)],
          token_type = ''bearer'', message = ''Signup successful'',
          user = (profile example_signup ''u1'')\<lparr>created_at := Some 500000\<rparr>\<rparr>"
  have f: "fst (signup None example_clock example_provider example_signup) = Inr ?resp"
    using example_preconditions(6)
    by (simp add: signup_fresh [OF example_preconditions(1-5)]
          issued_token [OF in_range [OF example_clock_in_range]])
       (simp add: examples SECRET_KEY_def timegm_def timedelta_minutes_def)
  then have s: "signup None example_clock example_provider example_signup =
                  (Inr ?resp, snd (signup None example_clock example_provider example_signup))"
    by (simp add: prod_eq_iff)
  have "subscription_usage (snd (signup None example_clock example_provider example_signup)) =
          [\<lparr>user_id = ''u1'', month = 11, year = 2026, speeches_limit = 1, speeches_used = 0,
            evaluations_limit = 1, evaluations_used = 0\<rparr>]"
    using signup_usage_record [OF s] by (simp add: examples profile_def)
  with f show ?thesis by simp
qed

text \<open>
  Claim C7. When the write of the usage row fails in a signup that got that far, the
  exception leaves the handler, the account row written just before stays in
  \<^verbatim>\<open>users\<close>, and \<^verbatim>\<open>subscription_usage\<close> has no row for it: nothing is rolled back.
\<close>

theorem signup_usage_failure_keeps_account:
  assumes "\<forall>r\<in>set (users p). email' r \<noteq> email data"
    and "\<not> outage p (Select_users_email (email data))"
    and "\<not> outage p (Create_user (email data) (password data))"
    and "create_reply p (email data) (password data) = Some uid"
    and "\<not> outage p (Insert_users (profile data uid))"
    and "outage p (Insert_subscription_usage (default_usage clk uid))"
  shows "fst (signup env clk p data) = Inl APIError
         \<and> users (snd (signup env clk p data)) =
             users p @ [(profile data uid)\<lparr>created_at := column_default p\<rparr>]
         \<and> subscription_usage (snd (signup env clk p data)) = subscription_usage p"
  using assms(6) by (simp add: signup_fresh [OF assms(1-5)])

text \<open>The example registration on the provider whose usage table cannot be written.\<close>

theorem signup_usage_failure_keeps_account_witness:
  "users example_usage_outage = []
   \<and> outage example_usage_outage (Insert_subscription_usage (default_usage example_clock ''u1''))
   \<and> fst (signup None example_clock example_usage_outage example_signup) = Inl APIError
   \<and> users (snd (signup None example_clock example_usage_outage example_signup)) =
       [profile example_signup ''u1'']
   \<and> subscription_usage (snd (signup None example_clock example_usage_outage example_signup)) = []"
proof -
  have h1: "\<forall>r\<in>set (users example_usage_outage). email' r \<noteq> email example_signup"
    by (simp add: examples)
  have h2: "\<not> outage example_usage_outage (Select_users_email (email example_signup))"
    by (simp add: examples)
  have h3: "\<not> outage example_usage_outage
              (Create_user (email example_signup) (password example_signup))"
    by (simp add: examples)
  have h4: "create_reply example_usage_outage (email example_signup) (password example_signup) =
              Some ''u1''"
    by (simp add: examples)
  have h5: "\<not> outage example_usage_outage (Insert_users (profile example_signup ''u1''))"
    by (simp add: examples)
  have h6: "outage example_usage_outage
              (Insert_subscription_usage (default_usage example_clock ''u1''))"
    by (simp add: examples)
  have s: "users example_usage_outage = []" "subscription_usage example_usage_outage = []"
    "column_default example_usage_outage = None"
    "(profile example_signup ''u1'')\<lparr>created_at := None\<rparr> = profile example_signup ''u1''"
    by (simp_all add: examples profile_def)
  show ?thesis
    using h6 s signup_usage_failure_keeps_account [OF h1 h2 h3 h4 h5 h6, of None]
    by simp
qed

text \<open>
  Claim C8. A signup with an email that has no account, on a provider that answers and
  creates the identity, and on a clock on which line 86 does not overflow, succeeds: the response carries the issued token, the token
  type \<open>bearer\<close>, and a user view with plan \<open>free\<close> and status \<open>active\<close>. Any later
  signup with the same email on the resulting provider fails with 400 "Email already
  in use".
\<close>

theorem signup_then_duplicate:
  assumes "\<forall>r\<in>set (users p). email' r \<noteq> email data"
    and "\<not> outage p (Select_users_email (email data))"
    and "\<not> outage p (Create_user (email data) (password data))"
    and "create_reply p (email data) (password data) = Some uid"
    and "\<not> outage p (Insert_users (profile data uid))"
    and "\<not> outage p (Insert_subscription_usage (default_usage clk uid))"
    and "- 62135596800000000 \<le> utcnow clk + 1800000000"
    and "utcnow clk + 1800000000 \<le> 253402300799999999"
  shows "\<exists>resp p'. signup env clk p data = (Inr resp, p')
           \<and> access_token resp =
               Jwt ''HS256'' (SECRET_KEY env)
                 [(''sub'', Str uid), (''email'', Str (email data)),
                  (''exp'', Num (timegm (utcnow clk + timedelta_minutes 30)))]
           \<and> token_type resp = ''bearer''
           \<and> subscription_plan (user resp) = Some ''free''
           \<and> subscription_status (user resp) = Some ''active''
           \<and> (\<forall>env2 clk2 data2. email data2 = email data \<longrightarrow>
                 fst (signup env2 clk2 p' data2) =
                   Inl (HTTPException 400 ''Email already in use''))"
proof -
  let ?row = "(profile data uid)\<lparr>created_at := column_default p\<rparr>"
  obtain resp p' where s: "signup env clk p data = (resp, p')"
    by (cases "signup env clk p data")
  have r: "resp = Inr \<lparr>access_token =
                  Jwt ''HS256'' (SECRET_KEY env)
                    [(''sub'', Str uid), (''email'', Str (email data)),
                     (''exp'', Num (timegm (utcnow clk + timedelta_minutes 30)))],
                token_type = ''bearer'', message = ''Signup successful'',
                user = (profile data uid)\<lparr>created_at := Some (utcnow clk)\<rparr>\<rparr>"
    and u: "users p' = users p @ [?row]" and o: "outage p' = outage p"
    using s assms(6)
    by (auto simp: signup_fresh [OF assms(1-5)] issued_token [OF in_range [OF assms(7,8)]])
  have again: "fst (signup env2 clk2 p' data2) = Inl (HTTPException 400 ''Email already in use'')"
    if "email data2 = email data" for env2 clk2 data2
  proof -
    have "?row \<in> set (users p')" by (simp add: u)
    moreover have "email' ?row = email data2" by (simp add: profile_def that)
    moreover have "\<not> outage p' (Select_users_email (email data2))"
      using assms(2) by (simp add: o that)
    ultimately show ?thesis by (simp add: signup_existing)
  qed
  show ?thesis
    using s again by (simp add: r profile_def)
qed

text \<open>
  The example of the specification: the registration of A succeeds on the empty
  provider, and the same registration sent again is refused.
\<close>

theorem signup_then_duplicate_witness:
  "users example_provider = []
   \<and> (case fst (signup None example_clock example_provider example_signup) of
        Inl e \<Rightarrow> False
      | Inr resp \<Rightarrow>
          access_token resp =
            Jwt ''HS256'' ''super-secret-key''
              [(''sub'', Str ''u1''), (''email'', Str ''a@x.com''), (''exp'', Num 1800)]
          \<and> token_type resp = ''bearer''
          \<and> subscription_plan (user resp) = Some ''free''
          \<and> subscription_status (user resp) = Some ''active'')
   \<and> fst (signup None example_clock
        (snd (signup None example_clock example_provider example_signup)) example_signup) =
       Inl (HTTPException 400 ''Email already in use'')"
proof -
  have u: "users example_provider = []" by (simp add: examples)
  have k: "SECRET_KEY None = ''super-secret-key''"
    "timegm (utcnow example_clock + timedelta_minutes 30) = 1800"
    "email example_signup = ''a@x.com''"
    by (simp_all add: SECRET_KEY_def examples timegm_def timedelta_minutes_def)
  from signup_then_duplicate [OF example_preconditions example_clock_in_range, of None]
  obtain resp p' where
    s: "signup None example_clock example_provider example_signup = (Inr resp, p')"
    and t: "access_token resp =
         Jwt ''HS256'' (SECRET_KEY None)
           [(''sub'', Str ''u1''), (''email'', Str (email example_signup)),
            (''exp'', Num (timegm (utcnow example_clock + timedelta_minutes 30)))]"
    and b: "token_type resp = ''bearer''"
    and f: "subscription_plan (user resp) = Some ''free''"
    and a: "subscription_status (user resp) = Some ''active''"
    and d: "\<forall>env2 clk2 data2. email data2 = email example_signup \<longrightarrow>
              fst (signup env2 clk2 p' data2) = Inl (HTTPException 400 ''Email already in use'')"
    by blast
  have "fst (signup None example_clock p' example_signup) =
          Inl (HTTPException 400 ''Email already in use'')"
    using d by blast
  with u s t b f a show ?thesis by (simp add: k)
qed

text \<open>
  Claim C5, on the code. A signin whose credentials the identity service accepts, for
  a user with no row in \<^verbatim>\<open>users\<close>, ends in the client's exception: \<^verbatim>\<open>single()\<close>
  raises before line 173 can test the data, nothing catches it in \<^verbatim>\<open>signin\<close>, and
  no signin at all ends with status 404. The 401 "Invalid credentials" of line 168
  is reached by a reply that carries no user; credentials that the client refuses by
  raising end in that exception as well.
\<close>

theorem signin_missing_profile:
  assumes "\<not> outage p (Sign_in_with_password (signin_email data) (signin_password data))"
    and "sign_in_reply p (signin_email data) (signin_password data) = Some uid"
    and "\<forall>r\<in>set (users p). id' r \<noteq> uid"
  shows "fst (signin env clk p data) = Inl APIError"
proof -
  have "filter (\<lambda>r. id' r = uid) (users p) = []"
    using assms(3) by (rule absent_filter)
  then show ?thesis
    using assms(1,2) by (simp add: signin_def provider_ops)
qed

theorem signin_missing_profile_witness:
  "sign_in_reply example_provider ''a@x.com'' ''pw1'' = Some ''u1''
   \<and> users example_provider = []
   \<and> fst (signin None example_clock example_provider
        \<lparr>signin_email = ''a@x.com'', signin_password = ''pw1''\<rparr>) = Inl APIError"
proof -
  let ?d = "\<lparr>signin_email = ''a@x.com'', signin_password = ''pw1''\<rparr>"
  have h1: "\<not> outage example_provider
              (Sign_in_with_password (signin_email ?d) (signin_password ?d))"
    by (simp add: examples)
  have h2: "sign_in_reply example_provider (signin_email ?d) (signin_password ?d) = Some ''u1''"
    by (simp add: examples)
  have h3: "\<forall>r\<in>set (users example_provider). id' r \<noteq> ''u1''"
    by (simp add: examples)
  have u: "users example_provider = []" by (simp add: examples)
  show ?thesis
    using h2 u signin_missing_profile [OF h1 h2 h3, of None example_clock]
    by simp
qed



end
